theory Spec2Isabelle
  imports Main "HOL-Library.AList" "HOL-Library.Char_ord" "HOL-Library.List_Lexorder"
begin

section \<open>JavaScript values used by the application\<close>

text \<open>
  Strings of the application are modelled as HOL strings. \<open>toLowerCase\<close> maps the
  letters \<open>A\<close>..\<open>Z\<close> to \<open>a\<close>..\<open>z\<close> and leaves every other character alone, which is
  what \<^verbatim>\<open>String.prototype.toLowerCase\<close> does on ASCII text. A string is falsy in a
  JavaScript condition exactly when it is empty.
\<close>

definition lower_char :: "char \<Rightarrow> char" where
  "lower_char c =
     (case map_of (zip ''ABCDEFGHIJKLMNOPQRSTUVWXYZ'' ''abcdefghijklmnopqrstuvwxyz'') c of
        None \<Rightarrow> c
      | Some l \<Rightarrow> l)"

definition toLowerCase :: "string \<Rightarrow> string" where
  "toLowerCase s = map lower_char s"

definition truthy :: "string \<Rightarrow> bool" where
  "truthy s = (s \<noteq> [])"

section \<open>The device simulator (class \<open>DeviceSimulator\<close>)\<close>

record MockDeviceInfo =
  md_id :: string
  md_name :: string
  md_model :: string
  md_androidVersion :: string
  md_apiLevel :: int
  md_manufacturer :: string
  md_brand :: string
  md_hardware :: string
  md_ram :: string
  md_storage :: string
  md_batteryLevel :: int
  md_screenResolution :: string
  md_networkType :: string
  md_connected :: bool
  md_lastSeen :: string

datatype file_type = File | Directory

record MockFile =
  mf_name :: string
  mf_path :: string
  mf_type :: file_type
  mf_size :: int
  mf_lastModified :: string
  mf_permissions :: string

text \<open>
  A \<open>MockCommand\<close> as \<open>executeCommand\<close> returns it. Its \<open>output\<close> and \<open>exitCode\<close> are
  read off whatever the table lookup produced, so they can be JavaScript's \<open>undefined\<close>,
  which is \<open>None\<close> here.
\<close>

record MockCommand =
  mc_id :: string
  mc_command :: string
  mc_output :: "string option"
  mc_exitCode :: "int option"
  mc_timestamp :: string

text \<open>
  What a handler reads from the outside world while it runs: the identifiers
  \<open>uuidv4()\<close> returns (one for a command, one for an activity row), the renderings of
  the current time (\<open>toISOString\<close>, \<open>toString\<close>, \<open>Date.now()\<close> in milliseconds, SQLite's
  \<open>CURRENT_TIMESTAMP\<close>), whether the record store rejects a write, and the results of
  the simulator operations whose values are random or formatted by the platform.
\<close>

record env =
  e_uuid :: string
  e_activityId :: string
  e_iso :: string
  e_dateString :: string
  e_nowMs :: int
  e_sqlNow :: string
  e_storeFails :: bool
  e_screenshotUrl :: "MockDeviceInfo \<Rightarrow> string"
  e_location :: string
  e_cameraUrl :: "string \<Rightarrow> string"
  e_audioUrl :: "int \<Rightarrow> string"

text \<open>The static table \<open>devices\<close>; \<open>t0\<close> is the time the class was loaded.\<close>

definition devices :: "string \<Rightarrow> MockDeviceInfo list" where
  "devices t0 =
    [\<lparr>md_id = ''device-001'', md_name = ''Samsung Galaxy S23'', md_model = ''SM-S911B'',
      md_androidVersion = ''14.0'', md_apiLevel = 34, md_manufacturer = ''Samsung'',
      md_brand = ''samsung'', md_hardware = ''qcom'', md_ram = ''8GB'', md_storage = ''256GB'',
      md_batteryLevel = 85, md_screenResolution = ''1080x2340'', md_networkType = ''WiFi'',
      md_connected = False, md_lastSeen = t0\<rparr>,
     \<lparr>md_id = ''device-002'', md_name = ''Google Pixel 8 Pro'', md_model = ''Pixel 8 Pro'',
      md_androidVersion = ''14.0'', md_apiLevel = 34, md_manufacturer = ''Google'',
      md_brand = ''google'', md_hardware = ''tensor'', md_ram = ''12GB'', md_storage = ''512GB'',
      md_batteryLevel = 72, md_screenResolution = ''1344x2992'', md_networkType = ''5G'',
      md_connected = False, md_lastSeen = t0\<rparr>,
     \<lparr>md_id = ''device-003'', md_name = ''OnePlus 11'', md_model = ''CPH2447'',
      md_androidVersion = ''13.0'', md_apiLevel = 33, md_manufacturer = ''OnePlus'',
      md_brand = ''oneplus'', md_hardware = ''qcom'', md_ram = ''16GB'', md_storage = ''1TB'',
      md_batteryLevel = 94, md_screenResolution = ''1440x3216'', md_networkType = ''5G'',
      md_connected = False, md_lastSeen = t0\<rparr>]"

text \<open>\<^verbatim>\<open>this.devices.find(device => device.id === deviceId) || null\<close>\<close>

definition getDeviceById :: "MockDeviceInfo list \<Rightarrow> string \<Rightarrow> MockDeviceInfo option" where
  "getDeviceById devs deviceId = find (\<lambda>device. md_id device = deviceId) devs"

text \<open>
  \<open>updateDeviceConnection\<close> mutates the first device with the given id and does nothing
  when there is none.
\<close>

fun updateDeviceConnection ::
  "string \<Rightarrow> MockDeviceInfo list \<Rightarrow> string \<Rightarrow> bool \<Rightarrow> MockDeviceInfo list" where
  "updateDeviceConnection now [] deviceId c = []"
| "updateDeviceConnection now (d # ds) deviceId c =
     (if md_id d = deviceId then d\<lparr>md_connected := c, md_lastSeen := now\<rparr> # ds
      else d # updateDeviceConnection now ds deviceId c)"

definition generateScreenshot :: "env \<Rightarrow> MockDeviceInfo list \<Rightarrow> string \<Rightarrow> string" where
  "generateScreenshot e devs deviceId =
     (case getDeviceById devs deviceId of
        None \<Rightarrow> ''''
      | Some device \<Rightarrow> e_screenshotUrl e device)"

definition dir_entry :: "string \<Rightarrow> string \<Rightarrow> string \<Rightarrow> MockFile" where
  "dir_entry n p t =
     \<lparr>mf_name = n, mf_path = p, mf_type = Directory, mf_size = 0,
      mf_lastModified = t, mf_permissions = ''drwxr-xr-x''\<rparr>"

definition commonFiles :: "MockFile list" where
  "commonFiles =
    [dir_entry ''Android'' ''/Android'' ''2024-01-15 10:30:00'',
     dir_entry ''DCIM'' ''/DCIM'' ''2024-01-20 14:22:00'',
     dir_entry ''Download'' ''/Download'' ''2024-01-22 09:15:00'',
     dir_entry ''Documents'' ''/Documents'' ''2024-01-18 16:45:00'',
     dir_entry ''Pictures'' ''/Pictures'' ''2024-01-21 11:30:00'',
     dir_entry ''Music'' ''/Music'' ''2024-01-19 13:20:00'',
     dir_entry ''Videos'' ''/Videos'' ''2024-01-20 15:10:00'']"

text \<open>
  \<open>getFileSystem(deviceId, path = '/')\<close>: the path is optional (\<open>None\<close> is an absent
  argument, which takes the default). The device id is not read.
\<close>

definition getFileSystem :: "string \<Rightarrow> string option \<Rightarrow> MockFile list" where
  "getFileSystem deviceId path_arg =
     (let path = (case path_arg of None \<Rightarrow> ''/'' | Some p \<Rightarrow> p) in
      if path = ''/'' \<or> path = '''' then commonFiles
      else if path = ''/DCIM'' then
        [dir_entry ''Camera'' ''/DCIM/Camera'' ''2024-01-20 14:22:00'']
      else if path = ''/Download'' then
        [\<lparr>mf_name = ''document.pdf'', mf_path = ''/Download/document.pdf'', mf_type = File,
          mf_size = 2048576, mf_lastModified = ''2024-01-22 09:15:00'',
          mf_permissions = ''-rw-r--r--''\<rparr>,
         \<lparr>mf_name = ''image.jpg'', mf_path = ''/Download/image.jpg'', mf_type = File,
          mf_size = 1536000, mf_lastModified = ''2024-01-21 18:30:00'',
          mf_permissions = ''-rw-r--r--''\<rparr>]
      else [])"

text \<open>
  The table \<open>commandOutputs\<close> of \<open>executeCommand\<close>: the object literal's own properties,
  in order. The output of \<open>date\<close> is the current time as a string. The line feed of the
  multi-line outputs is written \<open>CHR 0x0A\<close>.
\<close>

definition commandOutputs :: "env \<Rightarrow> (string \<times> string \<times> int) list" where
  "commandOutputs e =
    [(''ls'', ''Android'' @ [CHR 0x0A] @ ''DCIM'' @ [CHR 0x0A] @ ''Download'' @ [CHR 0x0A]
        @ ''Documents'' @ [CHR 0x0A] @ ''Pictures'' @ [CHR 0x0A] @ ''Music'' @ [CHR 0x0A]
        @ ''Videos'', 0),
     (''pwd'', ''/storage/emulated/0'', 0),
     (''whoami'', ''u0_a123'', 0),
     (''date'', e_dateString e, 0),
     (''ps'', ''USER     PID   PPID  VSIZE  RSS     WCHAN    PC        NAME'' @ [CHR 0x0A]
        @ ''root      1     0     1896   788   ffffffff 00000000 S /init'' @ [CHR 0x0A]
        @ ''system    123   1     2384   1256  ffffffff 00000000 S /system/bin/servicemanager'', 0),
     (''df'', ''Filesystem     1K-blocks    Used Available Use% Mounted on'' @ [CHR 0x0A]
        @ ''/dev/fuse      249999360 123456789 126542571  50% /storage/emulated'', 0),
     (''getprop'', ''[ro.build.version.release]: [14]'' @ [CHR 0x0A]
        @ ''[ro.build.version.sdk]: [34]'' @ [CHR 0x0A]
        @ ''[ro.product.model]: [SM-S911B]'', 0)]"

text \<open>
  \<open>commandOutputs\<close> is a plain object, so the property read
  \<^verbatim>\<open>commandOutputs[command.toLowerCase()]\<close> also finds what the object inherits from
  \<open>Object.prototype\<close>. These are the inherited property names; each holds a function
  (or, for \<open>__proto__\<close>, the prototype object), a truthy value that has neither an
  \<open>output\<close> nor an \<open>exitCode\<close> property.
\<close>

definition objectPrototypeKeys :: "string list" where
  "objectPrototypeKeys =
    [''constructor'', ''__defineGetter__'', ''__defineSetter__'', ''hasOwnProperty'',
     ''__lookupGetter__'', ''__lookupSetter__'', ''isPrototypeOf'', ''propertyIsEnumerable'',
     ''toString'', ''valueOf'', ''__proto__'', ''toLocaleString'']"

definition notFoundMessage :: "string \<Rightarrow> string" where
  "notFoundMessage command =
     ''Command '' @ [CHR 0x27] @ command @ [CHR 0x27] @ '' not found or not supported in simulation''"

definition executeCommand :: "env \<Rightarrow> string \<Rightarrow> string \<Rightarrow> MockCommand" where
  "executeCommand e deviceId command =
     (let commandId = e_uuid e;
          timestamp = e_iso e;
          key = toLowerCase command;
          result =
            (case map_of (commandOutputs e) key of
               Some (out, code) \<Rightarrow> (Some out, Some code)
             | None \<Rightarrow>
                 if key \<in> set objectPrototypeKeys then (None, None)
                 else (Some (notFoundMessage command), Some 127))
      in \<lparr>mc_id = commandId, mc_command = command, mc_output = fst result,
          mc_exitCode = snd result, mc_timestamp = timestamp\<rparr>)"


record MockApp =
  ma_packageName :: string
  ma_appName :: string
  ma_version :: string
  ma_icon :: string
  ma_size :: string
  ma_category :: string
  ma_system :: bool

definition mock_app :: "string \<Rightarrow> string \<Rightarrow> string \<Rightarrow> string \<Rightarrow> string \<Rightarrow> string \<Rightarrow> bool \<Rightarrow> MockApp" where
  "mock_app p n v i s c sys =
     \<lparr>ma_packageName = p, ma_appName = n, ma_version = v,
      ma_icon = ''https://placehold.co/64x64?text='' @ i, ma_size = s, ma_category = c,
      ma_system = sys\<rparr>"

definition getInstalledApps :: "string \<Rightarrow> MockApp list" where
  "getInstalledApps deviceId =
    [mock_app ''com.android.chrome'' ''Chrome'' ''118.0.5993.88'' ''Chrome'' ''145MB'' ''Web Browser'' False,
     mock_app ''com.whatsapp'' ''WhatsApp'' ''2.23.21.76'' ''WA'' ''89MB'' ''Communication'' False,
     mock_app ''com.instagram.android'' ''Instagram'' ''302.0.0.23.113'' ''IG'' ''78MB'' ''Social Media'' False,
     mock_app ''com.spotify.music'' ''Spotify'' ''8.8.62.488'' ''Spot'' ''67MB'' ''Music'' False,
     mock_app ''com.android.settings'' ''Settings'' ''14.0'' ''Set'' ''12MB'' ''System'' True,
     mock_app ''com.google.android.gms'' ''Google Play Services'' ''23.42.17'' ''GPS'' ''234MB'' ''System'' True]"

text \<open>
  \<open>getCurrentLocation\<close>, \<open>captureCamera\<close> and \<open>recordAudio\<close> do not read the device id
  either; their random or time-stamped parts come from the environment.
\<close>

definition getCurrentLocation :: "env \<Rightarrow> string \<Rightarrow> string" where
  "getCurrentLocation e deviceId = e_location e"

definition captureCamera :: "env \<Rightarrow> string \<Rightarrow> string \<Rightarrow> string" where
  "captureCamera e deviceId camera =
     e_cameraUrl e (if camera = ''front'' then ''Front Camera Selfie'' else ''Back Camera Photo'')"

definition recordAudio :: "env \<Rightarrow> string \<Rightarrow> int \<Rightarrow> string \<times> int \<times> int" where
  "recordAudio e deviceId duration = (e_audioUrl e duration, duration, duration * 16000)"

section \<open>Tokens (\<open>lib/auth.ts\<close>)\<close>

datatype role = Admin | Device

text \<open>The argument of \<open>generateToken\<close>: a payload without \<open>iat\<close> and \<open>exp\<close>.\<close>

record token_request =
  tr_userId :: string
  tr_deviceId :: "string option"
  tr_type :: role

record JWTPayload =
  jp_userId :: string
  jp_deviceId :: "string option"
  jp_type :: role
  jp_iat :: "int option"
  jp_exp :: "int option"

text \<open>
  The \<open>jsonwebtoken\<close> package is modelled symbolically. A token is either text that does
  not parse as a JWT, or the payload it carries together with its signature. The
  signature algorithm is a parameter \<open>hs256\<close> (key and payload to signature); nothing
  is assumed about it. \<open>jwt_sign\<close> stamps \<open>iat\<close> with the current time in whole seconds
  and \<open>exp\<close> with \<open>iat\<close> plus the lifetime; \<open>jwt_verify\<close> throws on a malformed token,
  on a signature that is not the one the key gives, and on a token whose \<open>exp\<close> is not
  after the current second.
\<close>

datatype token = Malformed string | Jws JWTPayload string

datatype jwt_error = JsonWebTokenError | TokenExpiredError

record config =
  hs256 :: "string \<Rightarrow> JWTPayload \<Rightarrow> string"
  env_JWT_SECRET :: "string option"

definition JWT_SECRET :: "config \<Rightarrow> string" where
  "JWT_SECRET cfg =
     (case env_JWT_SECRET cfg of
        None \<Rightarrow> ''remote-control-android-secret-key-2024''
      | Some s \<Rightarrow> if truthy s then s else ''remote-control-android-secret-key-2024'')"

text \<open>\<open>JWT_EXPIRES_IN = '24h'\<close>, in seconds.\<close>

definition JWT_EXPIRES_IN :: int where
  "JWT_EXPIRES_IN = 24 * 60 * 60"

definition jwt_sign :: "config \<Rightarrow> token_request \<Rightarrow> string \<Rightarrow> int \<Rightarrow> int \<Rightarrow> token" where
  "jwt_sign cfg payload secret expiresIn nowMs =
     (let timestamp = nowMs div 1000;
          p = \<lparr>jp_userId = tr_userId payload, jp_deviceId = tr_deviceId payload,
               jp_type = tr_type payload, jp_iat = Some timestamp,
               jp_exp = Some (timestamp + expiresIn)\<rparr>
      in Jws p (hs256 cfg secret p))"

definition jwt_verify :: "config \<Rightarrow> token \<Rightarrow> string \<Rightarrow> int \<Rightarrow> jwt_error + JWTPayload" where
  "jwt_verify cfg tok secret nowMs =
     (case tok of
        Malformed t \<Rightarrow> Inl JsonWebTokenError
      | Jws p sig \<Rightarrow>
          if sig \<noteq> hs256 cfg secret p then Inl JsonWebTokenError
          else (case jp_exp p of
                  None \<Rightarrow> Inr p
                | Some ex \<Rightarrow> if nowMs div 1000 \<ge> ex then Inl TokenExpiredError else Inr p))"

definition generateToken :: "config \<Rightarrow> int \<Rightarrow> token_request \<Rightarrow> token" where
  "generateToken cfg nowMs payload = jwt_sign cfg payload (JWT_SECRET cfg) JWT_EXPIRES_IN nowMs"

text \<open>\<open>verifyToken\<close> catches whatever \<open>jwt.verify\<close> throws and returns \<open>null\<close>.\<close>

definition verifyToken :: "config \<Rightarrow> int \<Rightarrow> token \<Rightarrow> JWTPayload option" where
  "verifyToken cfg nowMs tok =
     (case jwt_verify cfg tok (JWT_SECRET cfg) nowMs of
        Inr decoded \<Rightarrow> Some decoded
      | Inl error \<Rightarrow> None)"

definition generateAdminToken :: "config \<Rightarrow> int \<Rightarrow> string \<Rightarrow> token" where
  "generateAdminToken cfg nowMs adminId =
     generateToken cfg nowMs \<lparr>tr_userId = adminId, tr_deviceId = None, tr_type = Admin\<rparr>"

definition generateDeviceToken :: "config \<Rightarrow> int \<Rightarrow> string \<Rightarrow> string \<Rightarrow> token" where
  "generateDeviceToken cfg nowMs adminId deviceId =
     generateToken cfg nowMs \<lparr>tr_userId = adminId, tr_deviceId = Some deviceId, tr_type = Device\<rparr>"

section \<open>The record store (\<open>lib/database.ts\<close>)\<close>

text \<open>
  The tables the relay and the retention sweep touch, each a list of rows in rowid
  order. Timestamps are the TEXT values SQLite stores and compares as strings; the
  columns with a default are never given NULL by the application's statements.
\<close>

record session_row =
  s_id :: string
  s_device_id :: string
  s_admin_id :: string
  s_token :: string
  s_active :: bool
  s_created_at :: string
  s_expires_at :: string

record activity_row =
  a_id :: string
  a_device_id :: string
  a_admin_id :: string
  a_action :: string
  a_details :: "(string \<times> string) list"
  a_timestamp :: string

record command_row =
  c_id :: string
  c_device_id :: string
  c_command :: string
  c_status :: string
  c_output :: "string option"
  c_error :: "string option"
  c_created_at :: string
  c_executed_at :: "string option"

record database =
  sessions :: "session_row list"
  activity_logs :: "activity_row list"
  commands :: "command_row list"

text \<open>
  The clock as the three statements of the sweep read it: \<open>CURRENT_TIMESTAMP\<close>,
  \<open>datetime("now", "-30 days")\<close> and \<open>datetime("now", "-7 days")\<close>.
\<close>

record sql_clock =
  CURRENT_TIMESTAMP :: string
  now_minus_30_days :: string
  now_minus_7_days :: string

text \<open>
  Each statement gives the number of rows it changed (what \<open>run\<close> resolves to as
  \<open>changes\<close>) and the new table.
\<close>

definition deactivate_expired_sessions :: "sql_clock \<Rightarrow> session_row list \<Rightarrow> nat \<times> session_row list" where
  "deactivate_expired_sessions clk rows =
     (length (filter (\<lambda>r. s_expires_at r \<le> CURRENT_TIMESTAMP clk \<and> s_active r) rows),
      map (\<lambda>r. if s_expires_at r \<le> CURRENT_TIMESTAMP clk \<and> s_active r
                then r\<lparr>s_active := False\<rparr> else r) rows)"

definition delete_old_activity :: "sql_clock \<Rightarrow> activity_row list \<Rightarrow> nat \<times> activity_row list" where
  "delete_old_activity clk rows =
     (length (filter (\<lambda>r. a_timestamp r < now_minus_30_days clk) rows),
      filter (\<lambda>r. \<not> a_timestamp r < now_minus_30_days clk) rows)"

definition delete_old_commands :: "sql_clock \<Rightarrow> command_row list \<Rightarrow> nat \<times> command_row list" where
  "delete_old_commands clk rows =
     (length (filter (\<lambda>r. c_created_at r < now_minus_7_days clk) rows),
      filter (\<lambda>r. \<not> c_created_at r < now_minus_7_days clk) rows)"

definition cleanupExpiredData :: "sql_clock \<Rightarrow> database \<Rightarrow> database" where
  "cleanupExpiredData clk db =
     db\<lparr>sessions := snd (deactivate_expired_sessions clk (sessions db)),
        activity_logs := snd (delete_old_activity clk (activity_logs db)),
        commands := snd (delete_old_commands clk (commands db))\<rparr>"

text \<open>The rows one sweep changes: sessions deactivated, activity deleted, commands deleted.\<close>

definition cleanup_changes :: "sql_clock \<Rightarrow> database \<Rightarrow> nat \<times> nat \<times> nat" where
  "cleanup_changes clk db =
     (fst (deactivate_expired_sessions clk (sessions db)),
      fst (delete_old_activity clk (activity_logs db)),
      fst (delete_old_commands clk (commands db)))"

text \<open>
  \<open>logActivity\<close> inserts one row; \<open>details\<close> is the JSON text of the details object, of
  which the model keeps the text-valued parts as pairs of key and value.
\<close>

definition logActivity ::
  "env \<Rightarrow> string \<Rightarrow> string \<Rightarrow> string \<Rightarrow> (string \<times> string) list \<Rightarrow> database \<Rightarrow> database" where
  "logActivity e deviceId adminId action details db =
     db\<lparr>activity_logs := activity_logs db @
        [\<lparr>a_id = e_activityId e, a_device_id = deviceId, a_admin_id = adminId,
          a_action = action, a_details = details, a_timestamp = e_sqlNow e\<rparr>]\<rparr>"


section \<open>The session relay (\<open>app/api/socket/route.ts\<close>)\<close>

text \<open>
  \<open>deviceInfo\<close> is whatever object the registering client sent. The value stored in
  \<open>connectedDevices\<close> is \<^verbatim>\<open>{...deviceInfo, socketId: socket.id, connectedAt: ...}\<close>: the
  two named properties override properties of the same name in \<open>deviceInfo\<close>.
\<close>

type_synonym device_info = "(string \<times> string) list"

record device_entry =
  de_info :: device_info
  de_socketId :: string
  de_connectedAt :: string

datatype event =
    AdminAuthenticated bool "string option" "string option"
  | DevicesList "device_entry list"
  | DeviceConnect string device_info
  | DeviceRegistered bool string
  | ScreenUpdate string string
  | CommandResult string string "string option" "int option" string
  | CommandFailed string string
  | FileList string "string option" "MockFile list"
  | LocationUpdate string string
  | CameraResult string string string
  | AudioResult string "string \<times> int \<times> int"
  | AppList string "MockApp list"
  | NotificationSent string string bool
  | DeviceDisconnect string
  | ErrorEvent string string

text \<open>
  The state the handlers share: the two module-level maps (JavaScript \<open>Map\<close>s, which
  keep insertion order, as association lists), socket.io's room memberships as pairs
  of socket id and room name, the sockets that are connected, the simulator's device
  table, the record store, and every event delivered so far as pairs of receiving
  socket and event. The private room socket.io gives each socket under its own id is
  left out: the handlers only ever address rooms named \<open>admin:\<close> followed by an id.
  A handler runs here from start to end without another one in between.
\<close>

record relay =
  connectedDevices :: "(string \<times> device_entry) list"
  adminSessions :: "(string \<times> string) list"
  io_rooms :: "(string \<times> string) list"
  sockets :: "string list"
  sim_devices :: "MockDeviceInfo list"
  db :: database
  emitted :: "(string \<times> event) list"

text \<open>\<open>socket.emit(ev)\<close>: the event goes to the socket itself.\<close>

definition socket_emit :: "string \<Rightarrow> event \<Rightarrow> relay \<Rightarrow> relay" where
  "socket_emit s ev st = st\<lparr>emitted := emitted st @ [(s, ev)]\<rparr>"

text \<open>\<open>socket.to(room).emit(ev)\<close>: to every socket in the room but the sender.\<close>

definition socket_to_emit :: "string \<Rightarrow> string \<Rightarrow> event \<Rightarrow> relay \<Rightarrow> relay" where
  "socket_to_emit s room ev st =
     st\<lparr>emitted := emitted st @
        map (\<lambda>m. (fst m, ev)) (filter (\<lambda>m. snd m = room \<and> fst m \<noteq> s) (io_rooms st))\<rparr>"

definition socket_join :: "string \<Rightarrow> string \<Rightarrow> relay \<Rightarrow> relay" where
  "socket_join s room st =
     (if (s, room) \<in> set (io_rooms st) then st
      else st\<lparr>io_rooms := io_rooms st @ [(s, room)]\<rparr>)"

text \<open>The room name \<^verbatim>\<open>`admin:${adminId}`\<close>.\<close>

definition adminRoom :: "string \<Rightarrow> string" where
  "adminRoom adminId = ''admin:'' @ adminId"

definition initial_relay :: "string \<Rightarrow> relay" where
  "initial_relay t0 =
     \<lparr>connectedDevices = [], adminSessions = [], io_rooms = [], sockets = [],
      sim_devices = devices t0,
      db = \<lparr>sessions = [], activity_logs = [], commands = []\<rparr>,
      emitted = []\<rparr>"

text \<open>\<open>io.on('connection', ...)\<close> only installs the handlers on the new socket.\<close>

definition connection :: "string \<Rightarrow> relay \<Rightarrow> relay" where
  "connection s st = st\<lparr>sockets := sockets st @ [s]\<rparr>"

text \<open>
  The handler of \<open>admin:authenticate\<close>. When the record store rejects the activity row
  the \<open>catch\<close> sends a second, failing reply; the session entry made before stays.
\<close>

definition admin_authenticate :: "config \<Rightarrow> env \<Rightarrow> string \<Rightarrow> token \<Rightarrow> relay \<Rightarrow> relay" where
  "admin_authenticate cfg e s tok st =
     (case verifyToken cfg (e_nowMs e) tok of
        Some decoded \<Rightarrow>
          if jp_type decoded = Admin then
            (let st1 = st\<lparr>adminSessions := AList.update s (jp_userId decoded) (adminSessions st)\<rparr>;
                 st2 = socket_emit s (AdminAuthenticated True (Some (jp_userId decoded)) None) st1
             in if e_storeFails e
                then socket_emit s (AdminAuthenticated False None (Some ''Authentication failed'')) st2
                else st2\<lparr>db := logActivity e ''system'' (jp_userId decoded)
                       ''admin_websocket_connect'' [(''socketId'', s), (''timestamp'', e_iso e)]
                       (db st2)\<rparr>)
          else socket_emit s (AdminAuthenticated False None (Some ''Invalid token'')) st
      | None \<Rightarrow> socket_emit s (AdminAuthenticated False None (Some ''Invalid token'')) st)"

definition admin_join :: "string \<Rightarrow> string \<Rightarrow> relay \<Rightarrow> relay" where
  "admin_join s adminId st =
     (let st1 = socket_join s (adminRoom adminId) st;
          devs = map snd (connectedDevices st1)
      in socket_emit s (DevicesList devs) st1)"

definition device_register ::
  "env \<Rightarrow> string \<Rightarrow> string \<Rightarrow> device_info \<Rightarrow> string \<Rightarrow> relay \<Rightarrow> relay" where
  "device_register e s deviceId deviceInfo adminId st =
     (let st1 = st\<lparr>connectedDevices := AList.update deviceId
                   \<lparr>de_info = deviceInfo, de_socketId = s, de_connectedAt = e_iso e\<rparr>
                   (connectedDevices st)\<rparr>;
          st2 = st1\<lparr>sim_devices := updateDeviceConnection (e_iso e) (sim_devices st1) deviceId True\<rparr>;
          st3 = socket_to_emit s (adminRoom adminId) (DeviceConnect deviceId deviceInfo) st2
      in socket_emit s (DeviceRegistered True deviceId) st3)"

text \<open>
  The tail every request handler shares: look the requesting socket up in
  \<open>adminSessions\<close> and, when it has a (truthy) admin id, write one activity row. A
  rejected write lands in the handler's \<open>catch\<close>, which emits \<open>on_error\<close>.
\<close>

definition log_if_admin ::
  "env \<Rightarrow> string \<Rightarrow> string \<Rightarrow> string \<Rightarrow> (string \<times> string) list \<Rightarrow> event \<Rightarrow> relay \<Rightarrow> relay" where
  "log_if_admin e s deviceId action details on_error st =
     (case map_of (adminSessions st) s of
        None \<Rightarrow> st
      | Some adminId \<Rightarrow>
          if truthy adminId then
            (if e_storeFails e then socket_emit s on_error st
             else st\<lparr>db := logActivity e deviceId adminId action details (db st)\<rparr>)
          else st)"

definition device_screenshot :: "env \<Rightarrow> string \<Rightarrow> string \<Rightarrow> relay \<Rightarrow> relay" where
  "device_screenshot e s deviceId st =
     (let screenshot = generateScreenshot e (sim_devices st) deviceId;
          st1 = socket_emit s (ScreenUpdate deviceId screenshot) st
      in log_if_admin e s deviceId ''screenshot_request'' [(''timestamp'', e_iso e)]
           (ErrorEvent ''Screenshot failed'' deviceId) st1)"

definition opt_text :: "string option \<Rightarrow> string" where
  "opt_text v = (case v of None \<Rightarrow> ''undefined'' | Some t \<Rightarrow> t)"

definition device_command ::
  "env \<Rightarrow> string \<Rightarrow> string \<Rightarrow> string \<Rightarrow> string option \<Rightarrow> relay \<Rightarrow> relay" where
  "device_command e s deviceId command commandId st =
     (let result = executeCommand e deviceId command;
          cid = (case commandId of
                   None \<Rightarrow> mc_id result
                 | Some c \<Rightarrow> if truthy c then c else mc_id result);
          st1 = socket_emit s
                  (CommandResult deviceId cid (mc_output result) (mc_exitCode result)
                     (mc_timestamp result)) st
      in log_if_admin e s deviceId ''command_execute''
           [(''command'', command), (''result'', opt_text (mc_output result)),
            (''timestamp'', e_iso e)]
           (CommandFailed deviceId
              (case commandId of None \<Rightarrow> ''error'' | Some c \<Rightarrow> if truthy c then c else ''error''))
           st1)"

definition device_files :: "env \<Rightarrow> string \<Rightarrow> string \<Rightarrow> string option \<Rightarrow> relay \<Rightarrow> relay" where
  "device_files e s deviceId path st =
     (let files = getFileSystem deviceId path;
          st1 = socket_emit s (FileList deviceId path files) st
      in log_if_admin e s deviceId ''file_browse''
           [(''path'', opt_text path), (''timestamp'', e_iso e)]
           (ErrorEvent ''File listing failed'' deviceId) st1)"

definition device_location :: "env \<Rightarrow> string \<Rightarrow> string \<Rightarrow> relay \<Rightarrow> relay" where
  "device_location e s deviceId st =
     (let location = getCurrentLocation e deviceId;
          st1 = socket_emit s (LocationUpdate deviceId location) st
      in log_if_admin e s deviceId ''location_request''
           [(''location'', location), (''timestamp'', e_iso e)]
           (ErrorEvent ''Location request failed'' deviceId) st1)"

definition device_camera :: "env \<Rightarrow> string \<Rightarrow> string \<Rightarrow> string \<Rightarrow> relay \<Rightarrow> relay" where
  "device_camera e s deviceId camera st =
     (let imageUrl = captureCamera e deviceId camera;
          st1 = socket_emit s (CameraResult deviceId camera imageUrl) st
      in log_if_admin e s deviceId ''camera_capture''
           [(''camera'', camera), (''imageUrl'', imageUrl), (''timestamp'', e_iso e)]
           (ErrorEvent ''Camera capture failed'' deviceId) st1)"

definition device_audio :: "env \<Rightarrow> string \<Rightarrow> string \<Rightarrow> int \<Rightarrow> relay \<Rightarrow> relay" where
  "device_audio e s deviceId duration st =
     (let audioData = recordAudio e deviceId duration;
          st1 = socket_emit s (AudioResult deviceId audioData) st
      in log_if_admin e s deviceId ''audio_record''
           [(''audioUrl'', fst audioData), (''timestamp'', e_iso e)]
           (ErrorEvent ''Audio recording failed'' deviceId) st1)"

definition device_apps :: "env \<Rightarrow> string \<Rightarrow> string \<Rightarrow> relay \<Rightarrow> relay" where
  "device_apps e s deviceId st =
     (let apps = getInstalledApps deviceId;
          st1 = socket_emit s (AppList deviceId apps) st
      in log_if_admin e s deviceId ''app_list'' [(''timestamp'', e_iso e)]
           (ErrorEvent ''App listing failed'' deviceId) st1)"

definition device_notify :: "env \<Rightarrow> string \<Rightarrow> string \<Rightarrow> string \<Rightarrow> relay \<Rightarrow> relay" where
  "device_notify e s deviceId message st =
     (let st1 = socket_emit s (NotificationSent deviceId message True) st
      in log_if_admin e s deviceId ''notification_send''
           [(''message'', message), (''timestamp'', e_iso e)]
           (ErrorEvent ''Notification failed'' deviceId) st1)"

text \<open>
  The loop of the disconnect handler over \<open>connectedDevices.entries()\<close>. \<open>adminId\<close> is
  the admin id the handler read from \<open>adminSessions\<close> for the closing socket before
  the loop (\<open>None\<close> is \<open>undefined\<close>).
\<close>

fun remove_devices ::
  "env \<Rightarrow> string \<Rightarrow> string option \<Rightarrow> (string \<times> device_entry) list \<Rightarrow> relay \<Rightarrow> relay" where
  "remove_devices e s adminId [] st = st"
| "remove_devices e s adminId ((deviceId, deviceData) # entries) st =
     (if de_socketId deviceData = s then
        (let st1 = st\<lparr>connectedDevices := AList.delete deviceId (connectedDevices st)\<rparr>;
             st2 = st1\<lparr>sim_devices :=
                     updateDeviceConnection (e_iso e) (sim_devices st1) deviceId False\<rparr>;
             st3 = (case adminId of
                      None \<Rightarrow> st2
                    | Some a \<Rightarrow>
                        if truthy a
                        then socket_to_emit s (adminRoom a) (DeviceDisconnect deviceId) st2
                        else st2)
         in remove_devices e s adminId entries st3)
      else remove_devices e s adminId entries st)"

text \<open>
  The handler of \<open>disconnect\<close>. socket.io has taken the socket out of its rooms before
  the handler runs. The activity write is awaited outside any \<open>try\<close>: when the store
  rejects it the handler ends there, before the loop over the devices.
\<close>

definition disconnect :: "env \<Rightarrow> string \<Rightarrow> string \<Rightarrow> relay \<Rightarrow> relay" where
  "disconnect e s reason st0 =
     (let st = st0\<lparr>sockets := removeAll s (sockets st0),
                   io_rooms := filter (\<lambda>m. fst m \<noteq> s) (io_rooms st0)\<rparr>;
          adminId = map_of (adminSessions st) s
      in case adminId of
           None \<Rightarrow> remove_devices e s adminId (connectedDevices st) st
         | Some a \<Rightarrow>
             if truthy a then
               (let st1 = st\<lparr>adminSessions := AList.delete s (adminSessions st)\<rparr>
                in if e_storeFails e then st1
                   else remove_devices e s adminId (connectedDevices st1)
                          (st1\<lparr>db := logActivity e ''system'' a ''admin_websocket_disconnect''
                                  [(''socketId'', s), (''reason'', reason), (''timestamp'', e_iso e)]
                                  (db st1)\<rparr>))
             else remove_devices e s adminId (connectedDevices st) st)"

text \<open>One inbound event on socket \<open>s\<close>, dispatched to its handler.\<close>

datatype request =
    Connection
  | AdminAuthenticate token
  | AdminJoin string
  | DeviceRegister string device_info string
  | DeviceScreenshot string
  | DeviceCommand string string "string option"
  | DeviceFiles string "string option"
  | DeviceLocation string
  | DeviceCamera string string
  | DeviceAudio string int
  | DeviceApps string
  | DeviceNotify string string
  | Disconnect string

fun handle :: "config \<Rightarrow> env \<Rightarrow> string \<Rightarrow> request \<Rightarrow> relay \<Rightarrow> relay" where
  "handle cfg e s Connection st = connection s st"
| "handle cfg e s (AdminAuthenticate tok) st = admin_authenticate cfg e s tok st"
| "handle cfg e s (AdminJoin adminId) st = admin_join s adminId st"
| "handle cfg e s (DeviceRegister deviceId deviceInfo adminId) st =
     device_register e s deviceId deviceInfo adminId st"
| "handle cfg e s (DeviceScreenshot deviceId) st = device_screenshot e s deviceId st"
| "handle cfg e s (DeviceCommand deviceId command commandId) st =
     device_command e s deviceId command commandId st"
| "handle cfg e s (DeviceFiles deviceId path) st = device_files e s deviceId path st"
| "handle cfg e s (DeviceLocation deviceId) st = device_location e s deviceId st"
| "handle cfg e s (DeviceCamera deviceId camera) st = device_camera e s deviceId camera st"
| "handle cfg e s (DeviceAudio deviceId duration) st = device_audio e s deviceId duration st"
| "handle cfg e s (DeviceApps deviceId) st = device_apps e s deviceId st"
| "handle cfg e s (DeviceNotify deviceId message) st = device_notify e s deviceId message st"
| "handle cfg e s (Disconnect reason) st = disconnect e s reason st"

text \<open>
  The bindings of a connection: the admin ids \<open>adminSessions\<close> holds for it, and the
  device ids whose registration names it.
\<close>

definition admin_ids_of :: "relay \<Rightarrow> string \<Rightarrow> string list" where
  "admin_ids_of st c = map snd (filter (\<lambda>b. fst b = c) (adminSessions st))"

definition device_ids_of :: "relay \<Rightarrow> string \<Rightarrow> string list" where
  "device_ids_of st c = map fst (filter (\<lambda>r. de_socketId (snd r) = c) (connectedDevices st))"

text \<open>The sockets an event named \<open>device:connect\<close> was delivered to, from a list of deliveries.\<close>

fun is_device_connect :: "event \<Rightarrow> bool" where
  "is_device_connect (DeviceConnect d i) = True"
| "is_device_connect ev = False"

fun is_device_disconnect :: "event \<Rightarrow> bool" where
  "is_device_disconnect (DeviceDisconnect d) = True"
| "is_device_disconnect ev = False"


text \<open>
  Observers used to state properties: the rooms a socket is in (socket.io's
  \<open>socket.rooms\<close>), the events delivered between two states, and the sockets that were
  sent a \<open>device:connect\<close> or a \<open>device:disconnect\<close> among some deliveries.
\<close>

definition rooms_of :: "relay \<Rightarrow> string \<Rightarrow> string list" where
  "rooms_of st c = map snd (filter (\<lambda>m. fst m = c) (io_rooms st))"

definition deliveries_since :: "relay \<Rightarrow> relay \<Rightarrow> (string \<times> event) list" where
  "deliveries_since st st' = drop (length (emitted st)) (emitted st')"

definition device_connect_recipients :: "(string \<times> event) list \<Rightarrow> string list" where
  "device_connect_recipients ds = map fst (filter (\<lambda>d. is_device_connect (snd d)) ds)"

definition device_disconnect_recipients :: "(string \<times> event) list \<Rightarrow> string list" where
  "device_disconnect_recipients ds = map fst (filter (\<lambda>d. is_device_disconnect (snd d)) ds)"

section \<open>Concrete inputs\<close>

definition example_env :: env where
  "example_env =
     \<lparr>e_uuid = ''3f2b8c1e-0001'', e_activityId = ''3f2b8c1e-0002'',
      e_iso = ''2024-02-01T10:00:00.000Z'',
      e_dateString = ''Thu Feb 01 2024 10:00:00 GMT+0000'',
      e_nowMs = 1706781600000, e_sqlNow = ''2024-02-01 10:00:00'', e_storeFails = False,
      e_screenshotUrl = (\<lambda>d. ''https://placehold.co/'' @ md_screenResolution d),
      e_location = ''-6.2088,106.8456'',
      e_cameraUrl = (\<lambda>t. ''https://placehold.co/1920x1080?text='' @ t),
      e_audioUrl = (\<lambda>d. ''https://placehold.co/400x100'')\<rparr>"

definition example_config :: config where
  "example_config = \<lparr>hs256 = (\<lambda>key p. key @ ''.'' @ jp_userId p), env_JWT_SECRET = None\<rparr>"

definition example_clock :: sql_clock where
  "example_clock =
     \<lparr>CURRENT_TIMESTAMP = ''2024-02-01 10:00:00'', now_minus_30_days = ''2024-01-02 10:00:00'',
      now_minus_7_days = ''2024-01-25 10:00:00''\<rparr>"

text \<open>
  A store with one session past its expiry and one not, one activity row older than
  thirty days and one newer, one command older than seven days and one newer.
\<close>

definition example_store :: database where
  "example_store =
     \<lparr>sessions =
        [\<lparr>s_id = ''s1'', s_device_id = ''device-001'', s_admin_id = ''admin-001'',
          s_token = ''t1'', s_active = True, s_created_at = ''2024-01-30 09:00:00'',
          s_expires_at = ''2024-01-31 09:00:00''\<rparr>,
         \<lparr>s_id = ''s2'', s_device_id = ''device-002'', s_admin_id = ''admin-001'',
          s_token = ''t2'', s_active = True, s_created_at = ''2024-02-01 09:00:00'',
          s_expires_at = ''2024-02-02 09:00:00''\<rparr>],
      activity_logs =
        [\<lparr>a_id = ''a1'', a_device_id = ''device-001'', a_admin_id = ''admin-001'',
          a_action = ''file_browse'', a_details = [], a_timestamp = ''2023-12-01 08:00:00''\<rparr>,
         \<lparr>a_id = ''a2'', a_device_id = ''device-001'', a_admin_id = ''admin-001'',
          a_action = ''app_list'', a_details = [], a_timestamp = ''2024-01-20 08:00:00''\<rparr>],
      commands =
        [\<lparr>c_id = ''c1'', c_device_id = ''device-001'', c_command = ''ls'',
          c_status = ''success'', c_output = Some ''Android'', c_error = None,
          c_created_at = ''2024-01-10 08:00:00'', c_executed_at = Some ''2024-01-10 08:00:01''\<rparr>,
         \<lparr>c_id = ''c2'', c_device_id = ''device-001'', c_command = ''pwd'',
          c_status = ''pending'', c_output = None, c_error = None,
          c_created_at = ''2024-01-31 08:00:00'', c_executed_at = None\<rparr>]\<rparr>"

text \<open>A sequence of inbound events, each on its socket, handled in order.\<close>

fun run :: "config \<Rightarrow> env \<Rightarrow> (string \<times> request) list \<Rightarrow> relay \<Rightarrow> relay" where
  "run cfg e [] st = st"
| "run cfg e ((s, req) # evs) st = run cfg e evs (handle cfg e s req st)"

text \<open>
  Two admins watch their rooms, and a device of the second admin is registered; the
  socket \<open>dev-a\<close> is connected and has not registered yet.
\<close>

definition two_admins_state :: relay where
  "two_admins_state =
     run example_config example_env
       [(''sock-a'', Connection), (''sock-a'', AdminJoin ''admin-A''),
        (''sock-b'', Connection), (''sock-b'', AdminJoin ''admin-B''),
        (''dev-b'', Connection), (''dev-b'', DeviceRegister ''device-002'' [] ''admin-B''),
        (''dev-a'', Connection)]
       (initial_relay ''2024-02-01T09:00:00.000Z'')"

text \<open>
  An admin watches the room of \<open>admin-001\<close>, and the socket \<open>dev-1\<close> has registered
  \<open>device-001\<close> for that admin; a second socket \<open>dev-2\<close> is connected.
\<close>

definition one_device_state :: relay where
  "one_device_state =
     run example_config example_env
       [(''sock-a'', Connection), (''sock-a'', AdminJoin ''admin-001''),
        (''dev-1'', Connection), (''dev-1'', DeviceRegister ''device-001'' [] ''admin-001''),
        (''dev-2'', Connection)]
       (initial_relay ''2024-02-01T09:00:00.000Z'')"

text \<open>The state above after \<open>sock-a\<close> has authenticated with a token of \<open>admin-001\<close>.\<close>

definition authenticated_state :: relay where
  "authenticated_state =
     handle example_config example_env ''sock-a''
       (AdminAuthenticate (generateAdminToken example_config (e_nowMs example_env) ''admin-001''))
       one_device_state"

section \<open>The device simulator: lookups\<close>

lemma toLowerCase_eval [simp]:
  "toLowerCase [] = []"
  "toLowerCase (c # cs) = lower_char c # toLowerCase cs"
  by (simp_all add: toLowerCase_def)

lemma getDeviceById_None_iff: "getDeviceById devs d = None \<longleftrightarrow> d \<notin> md_id ` set devs"
  by (auto simp: getDeviceById_def find_None_iff)

lemma commandOutputs_keys:
  "fst ` set (commandOutputs e) = {''ls'', ''pwd'', ''whoami'', ''date'', ''ps'', ''df'', ''getprop''}"
  by (simp add: commandOutputs_def)

lemma executeCommand_default:
  assumes "toLowerCase c \<notin> fst ` set (commandOutputs e)"
    and "toLowerCase c \<notin> set objectPrototypeKeys"
  shows "mc_exitCode (executeCommand e d c) = Some 127"
    and "mc_output (executeCommand e d c) = Some (notFoundMessage c)"
proof -
  from assms(1) have "map_of (commandOutputs e) (toLowerCase c) = None"
    by (simp add: map_of_eq_None_iff)
  with assms(2) show "mc_exitCode (executeCommand e d c) = Some 127"
    and "mc_output (executeCommand e d c) = Some (notFoundMessage c)"
    by (simp_all add: executeCommand_def Let_def)
qed

lemma executeCommand_table_entry:
  assumes "(k, out, code) \<in> set (commandOutputs e)" and "toLowerCase c = k"
  shows "mc_output (executeCommand e d c) = Some out
    \<and> mc_exitCode (executeCommand e d c) = Some code"
proof -
  have "distinct (map fst (commandOutputs e))"
    by (simp add: commandOutputs_def)
  with assms(1) have "map_of (commandOutputs e) k = Some (out, code)"
    by simp
  with assms(2) show ?thesis
    by (simp add: executeCommand_def Let_def)
qed

text \<open>
  \<open>pwd\<close>, in any letter case and for any device id, gives the fixed directory and exit
  code 0.
\<close>

lemma executeCommand_pwd:
  "toLowerCase c = ''pwd'' \<Longrightarrow>
   mc_output (executeCommand e d c) = Some ''/storage/emulated/0''
   \<and> mc_exitCode (executeCommand e d c) = Some 0"
  by (rule executeCommand_table_entry [where k = "''pwd''"]) (simp_all add: commandOutputs_def)

lemma getFileSystem_other:
  "p \<notin> {None, Some ''/'', Some '''', Some ''/DCIM'', Some ''/Download''} \<Longrightarrow>
   getFileSystem d p = []"
  by (cases p) (auto simp: getFileSystem_def)

text \<open>
  Claim C1, as stated, fails: for a device id that is not in the device table, the
  root listing and the \<open>pwd\<close> command give what they give for every device. The id
  \<open>device-999\<close> is not in the table, its root directory lists seven entries, and \<open>pwd\<close>
  exits with code 0.
\<close>

theorem unknown_device_claim_counterexample:
  "''device-999'' \<notin> md_id ` set (devices ''2024-02-01T09:00:00.000Z'')
   \<and> length (getFileSystem ''device-999'' (Some ''/'')) = 7
   \<and> mc_exitCode (executeCommand example_env ''device-999'' ''pwd'') = Some 0"
  by (simp add: devices_def getFileSystem_def commonFiles_def executeCommand_def
      commandOutputs_def lower_char_def)

text \<open>
  Claim C1, amended: for every device id that is not in the device table,
  \<open>getDeviceById\<close> returns null; \<open>getFileSystem\<close> returns the empty sequence for every
  path other than the root (\<open>/\<close>, the empty string or an absent path), \<open>/DCIM\<close> and
  \<open>/Download\<close>; and \<open>executeCommand\<close> returns exit code 127 for every command whose
  lowercased text is neither a key of the command table nor a property name inherited
  from \<open>Object.prototype\<close>.
\<close>

theorem unknown_device_results:
  assumes "deviceId \<notin> md_id ` set devs"
  shows "getDeviceById devs deviceId = None
    \<and> (path \<notin> {None, Some ''/'', Some '''', Some ''/DCIM'', Some ''/Download''}
         \<longrightarrow> getFileSystem deviceId path = [])
    \<and> (toLowerCase command \<notin> fst ` set (commandOutputs e) \<union> set objectPrototypeKeys
         \<longrightarrow> mc_exitCode (executeCommand e deviceId command) = Some 127)"
  using assms
  by (simp add: getDeviceById_None_iff getFileSystem_other executeCommand_default
      del: toLowerCase_eval)

theorem unknown_device_results_witness:
  "getDeviceById (devices ''2024-02-01T09:00:00.000Z'') ''device-999'' = None
    \<and> getFileSystem ''device-999'' (Some ''/Music'') = []
    \<and> mc_exitCode (executeCommand example_env ''device-999'' ''reboot'') = Some 127"
  using unknown_device_results [of "''device-999''" "devices ''2024-02-01T09:00:00.000Z''"
      "Some ''/Music''" "''reboot''" example_env]
  by (simp add: devices_def commandOutputs_keys objectPrototypeKeys_def lower_char_def)

text \<open>
  Claim C8 at the command \<open>constructor\<close>: the text is not a key of the command table,
  yet the lookup finds the property every object inherits, so the default is not
  taken and the result carries neither the exit code 127 nor the message: both are
  undefined. The same holds for \<open>__proto__\<close>, in any letter case, and for any device.
\<close>

theorem executeCommand_inherited_property:
  "toLowerCase ''constructor'' \<notin> fst ` set (commandOutputs e)
   \<and> mc_exitCode (executeCommand e deviceId ''constructor'') = None
   \<and> mc_output (executeCommand e deviceId ''constructor'') = None
   \<and> mc_exitCode (executeCommand e deviceId ''__PROTO__'') = None"
  by (simp add: executeCommand_def commandOutputs_def objectPrototypeKeys_def lower_char_def)

section \<open>Tokens: issue and verify\<close>

text \<open>
  Claim C3: verifying a token at the moment it was issued gives a payload with the
  subject id and the role it was issued for (and the issue and expiry times).
\<close>

theorem verify_after_generate:
  "verifyToken cfg nowMs
     (generateToken cfg nowMs \<lparr>tr_userId = s, tr_deviceId = d, tr_type = r\<rparr>)
   = Some \<lparr>jp_userId = s, jp_deviceId = d, jp_type = r, jp_iat = Some (nowMs div 1000),
           jp_exp = Some (nowMs div 1000 + 86400)\<rparr>"
  by (simp add: verifyToken_def generateToken_def jwt_sign_def jwt_verify_def Let_def
      JWT_EXPIRES_IN_def)

text \<open>
  Claim C4: a token issued with the configured lifetime of 24 hours and verified 25
  hours later is rejected with null; and \<open>verifyToken\<close> returns null whenever the
  verification fails, which it does for a malformed token, for a signature that is
  not the key's, and for an expiry time that is not in the future.
\<close>

theorem verifyToken_rejects:
  "verifyToken cfg (nowMs + 25 * 60 * 60 * 1000) (generateToken cfg nowMs req) = None
   \<and> (\<forall>tok t. (\<exists>err. jwt_verify cfg tok (JWT_SECRET cfg) t = Inl err)
         \<longrightarrow> verifyToken cfg t tok = None)
   \<and> verifyToken cfg t (Malformed raw) = None
   \<and> (sig \<noteq> hs256 cfg (JWT_SECRET cfg) p \<longrightarrow> verifyToken cfg t (Jws p sig) = None)
   \<and> (jp_exp p = Some ex \<and> ex \<le> t div 1000 \<longrightarrow> verifyToken cfg t (Jws p sig) = None)"
  by (auto simp add: verifyToken_def generateToken_def jwt_sign_def jwt_verify_def Let_def
      JWT_EXPIRES_IN_def)

theorem verifyToken_rejects_witness:
  "verifyToken example_config (1706781600000 + 25 * 60 * 60 * 1000)
      (generateToken example_config 1706781600000
         \<lparr>tr_userId = ''admin-001'', tr_deviceId = None, tr_type = Admin\<rparr>) = None
   \<and> jwt_verify example_config (Malformed ''not.a.jwt'') (JWT_SECRET example_config)
        1706781600000 = Inl JsonWebTokenError
   \<and> verifyToken example_config 1706781600000 (Malformed ''not.a.jwt'') = None
   \<and> ''forged'' \<noteq> hs256 example_config (JWT_SECRET example_config)
        \<lparr>jp_userId = ''admin-001'', jp_deviceId = None, jp_type = Admin,
         jp_iat = Some 1706000000, jp_exp = Some 1706086400\<rparr>
   \<and> verifyToken example_config 1706781600000
        (Jws \<lparr>jp_userId = ''admin-001'', jp_deviceId = None, jp_type = Admin,
              jp_iat = Some 1706000000, jp_exp = Some 1706086400\<rparr> ''forged'') = None
   \<and> (1706086400 :: int) \<le> 1706781600000 div 1000"
  using verifyToken_rejects [where cfg = example_config and nowMs = 1706781600000
      and req = "\<lparr>tr_userId = ''admin-001'', tr_deviceId = None, tr_type = Admin\<rparr>"
      and t = 1706781600000 and raw = "''not.a.jwt''" and sig = "''forged''"
      and p = "\<lparr>jp_userId = ''admin-001'', jp_deviceId = None, jp_type = Admin,
                jp_iat = Some 1706000000, jp_exp = Some 1706086400\<rparr>"
      and ex = 1706086400]
  by (simp add: example_config_def jwt_verify_def JWT_SECRET_def)

section \<open>The retention sweep\<close>

text \<open>
  Claim C9: running \<open>cleanupExpiredData\<close> a second time, on the store the first run
  left and with the clock unchanged, leaves the store as it is, and none of its three
  statements changes a row.
\<close>

theorem cleanup_idempotent:
  "cleanupExpiredData clk (cleanupExpiredData clk store) = cleanupExpiredData clk store
   \<and> cleanup_changes clk (cleanupExpiredData clk store) = (0, 0, 0)"
  by (simp add: cleanupExpiredData_def cleanup_changes_def deactivate_expired_sessions_def
      delete_old_activity_def delete_old_commands_def filter_empty_conv o_def)

text \<open>
  On the sample store the first sweep deactivates one session and deletes one row of
  each log; the second changes nothing.
\<close>

lemma cleanup_example:
  "cleanup_changes example_clock example_store = (1, 1, 1)
   \<and> map s_active (sessions (cleanupExpiredData example_clock example_store)) = [False, True]
   \<and> map a_id (activity_logs (cleanupExpiredData example_clock example_store)) = [''a2'']
   \<and> map c_id (commands (cleanupExpiredData example_clock example_store)) = [''c2'']
   \<and> cleanup_changes example_clock (cleanupExpiredData example_clock example_store) = (0, 0, 0)"
  by (simp add: cleanupExpiredData_def cleanup_changes_def deactivate_expired_sessions_def
      delete_old_activity_def delete_old_commands_def example_clock_def example_store_def
      less_char_def less_eq_char_def)

section \<open>The session relay: what the handlers change\<close>

lemma adminRoom_eq_iff: "adminRoom a = adminRoom b \<longleftrightarrow> a = b"
  by (simp add: adminRoom_def)

lemma socket_emit_fields [simp]:
  "connectedDevices (socket_emit s ev st) = connectedDevices st"
  "adminSessions (socket_emit s ev st) = adminSessions st"
  "io_rooms (socket_emit s ev st) = io_rooms st"
  "sockets (socket_emit s ev st) = sockets st"
  "sim_devices (socket_emit s ev st) = sim_devices st"
  "db (socket_emit s ev st) = db st"
  "emitted (socket_emit s ev st) = emitted st @ [(s, ev)]"
  by (simp_all add: socket_emit_def)

lemma socket_to_emit_fields [simp]:
  "connectedDevices (socket_to_emit s room ev st) = connectedDevices st"
  "adminSessions (socket_to_emit s room ev st) = adminSessions st"
  "io_rooms (socket_to_emit s room ev st) = io_rooms st"
  "sockets (socket_to_emit s room ev st) = sockets st"
  "sim_devices (socket_to_emit s room ev st) = sim_devices st"
  "db (socket_to_emit s room ev st) = db st"
  by (simp_all add: socket_to_emit_def)

lemma socket_join_fields [simp]:
  "connectedDevices (socket_join s room st) = connectedDevices st"
  "adminSessions (socket_join s room st) = adminSessions st"
  "sockets (socket_join s room st) = sockets st"
  "sim_devices (socket_join s room st) = sim_devices st"
  "db (socket_join s room st) = db st"
  "emitted (socket_join s room st) = emitted st"
  by (simp_all add: socket_join_def)

lemma log_if_admin_fields [simp]:
  "connectedDevices (log_if_admin e s d a det err st) = connectedDevices st"
  "adminSessions (log_if_admin e s d a det err st) = adminSessions st"
  "io_rooms (log_if_admin e s d a det err st) = io_rooms st"
  "sockets (log_if_admin e s d a det err st) = sockets st"
  "sim_devices (log_if_admin e s d a det err st) = sim_devices st"
  by (simp_all add: log_if_admin_def split: option.splits)

lemma remove_devices_fields [simp]:
  "adminSessions (remove_devices e s a entries st) = adminSessions st"
  "io_rooms (remove_devices e s a entries st) = io_rooms st"
  "sockets (remove_devices e s a entries st) = sockets st"
  "db (remove_devices e s a entries st) = db st"
  by (induction e s a entries st rule: remove_devices.induct;
      simp add: Let_def split: option.splits)+

text \<open>
  The loop of the disconnect handler deletes exactly the registrations whose key it
  met on an entry of the closing socket.
\<close>

lemma remove_devices_connectedDevices:
  "connectedDevices (remove_devices e s a entries st) =
     filter (\<lambda>r. fst r \<notin> fst ` set (filter (\<lambda>x. de_socketId (snd x) = s) entries))
       (connectedDevices st)"
proof (induction entries arbitrary: st)
  case Nil
  show ?case by simp
next
  case (Cons x entries)
  obtain deviceId deviceData where x: "x = (deviceId, deviceData)"
    by (cases x)
  show ?case
  proof (cases "de_socketId deviceData = s")
    case True
    have "connectedDevices (remove_devices e s a (x # entries) st) =
        filter (\<lambda>r. fst r \<notin> fst ` set (filter (\<lambda>x. de_socketId (snd x) = s) entries))
          (AList.delete deviceId (connectedDevices st))"
      using True by (simp add: x Let_def Cons.IH split: option.splits)
    also have "\<dots> =
        filter (\<lambda>r. fst r \<notin> fst ` set (filter (\<lambda>x. de_socketId (snd x) = s) (x # entries)))
          (connectedDevices st)"
      using True by (auto simp: x AList.delete_eq intro!: filter_cong)
    finally show ?thesis .
  next
    case False
    then show ?thesis by (simp add: x Cons.IH)
  qed
qed

text \<open>With no admin id in hand the loop emits nothing.\<close>

lemma remove_devices_silent:
  "emitted (remove_devices e s None entries st) = emitted st"
  by (induction entries arbitrary: st) (auto simp: Let_def)

lemma device_ids_of_disconnect:
  assumes "\<not> e_storeFails e"
  shows "device_ids_of (disconnect e c reason st) c = []"
proof -
  have "filter (\<lambda>r. de_socketId (snd r) = c)
          (filter (\<lambda>r. fst r \<notin> fst ` set (filter (\<lambda>x. de_socketId (snd x) = c) cd)) cd) = []"
    for cd :: "(string \<times> device_entry) list"
    by (auto simp: filter_empty_conv)
  then show ?thesis
    using assms
    by (simp add: device_ids_of_def disconnect_def Let_def remove_devices_connectedDevices
        split: option.splits)
qed

text \<open>
  A socket that holds no admin session is sent to nobody when it closes: its
  disconnect delivers no event at all, whatever it had registered.
\<close>

lemma disconnect_without_session_silent:
  "map_of (adminSessions st) s = None \<Longrightarrow> deliveries_since st (disconnect e s reason st) = []"
  by (simp add: disconnect_def deliveries_since_def Let_def remove_devices_silent)

lemma at_most_one_iff_distinct:
  "(\<forall>c. length (filter (\<lambda>b. fst b = c) al) \<le> 1) \<longleftrightarrow> distinct (map fst al)"
proof (induction al)
  case Nil
  then show ?case by simp
next
  case (Cons x xs)
  show ?case
  proof
    assume h: "\<forall>c. length (filter (\<lambda>b. fst b = c) (x # xs)) \<le> 1"
    then have "\<forall>c. length (filter (\<lambda>b. fst b = c) xs) \<le> 1"
      by (metis (mono_tags, lifting) filter.simps(2) length_Cons order_trans le_refl Suc_leD)
    with Cons have d: "distinct (map fst xs)"
      by simp
    from h have "length (filter (\<lambda>b. fst b = fst x) (x # xs)) \<le> 1"
      by blast
    then have "filter (\<lambda>b. fst b = fst x) xs = []"
      by simp
    then have "fst x \<notin> fst ` set xs"
      by (auto simp: filter_empty_conv)
    with d show "distinct (map fst (x # xs))"
      by simp
  next
    assume d: "distinct (map fst (x # xs))"
    then have "\<forall>c. length (filter (\<lambda>b. fst b = c) xs) \<le> 1"
      using Cons by simp
    moreover from d have "fst x \<notin> fst ` set xs"
      by simp
    then have "filter (\<lambda>b. fst b = fst x) xs = []"
      by (force simp: filter_empty_conv image_iff)
    ultimately show "\<forall>c. length (filter (\<lambda>b. fst b = c) (x # xs)) \<le> 1"
      by auto
  qed
qed

text \<open>
  Only \<open>admin:authenticate\<close> and \<open>disconnect\<close> write \<open>adminSessions\<close>, the first with
  \<open>set\<close> and the second with \<open>delete\<close>, so its keys stay distinct.
\<close>

lemma handle_adminSessions_distinct:
  assumes "distinct (map fst (adminSessions st))"
  shows "distinct (map fst (adminSessions (handle cfg e s req st)))"
proof (cases req)
  case Connection
  then show ?thesis using assms by (simp add: connection_def)
next
  case (AdminAuthenticate tok)
  then show ?thesis using assms
    by (simp add: admin_authenticate_def Let_def distinct_update split: option.splits)
next
  case (AdminJoin a)
  then show ?thesis using assms by (simp add: admin_join_def Let_def)
next
  case (DeviceRegister d i a)
  then show ?thesis using assms by (simp add: device_register_def Let_def)
next
  case (DeviceScreenshot d)
  then show ?thesis using assms by (simp add: device_screenshot_def Let_def)
next
  case (DeviceCommand d c i)
  then show ?thesis using assms by (simp add: device_command_def Let_def)
next
  case (DeviceFiles d p)
  then show ?thesis using assms by (simp add: device_files_def Let_def)
next
  case (DeviceLocation d)
  then show ?thesis using assms by (simp add: device_location_def Let_def)
next
  case (DeviceCamera d c)
  then show ?thesis using assms by (simp add: device_camera_def Let_def)
next
  case (DeviceAudio d n)
  then show ?thesis using assms by (simp add: device_audio_def Let_def)
next
  case (DeviceApps d)
  then show ?thesis using assms by (simp add: device_apps_def Let_def)
next
  case (DeviceNotify d m)
  then show ?thesis using assms by (simp add: device_notify_def Let_def)
next
  case (Disconnect reason)
  then show ?thesis using assms
    by (simp add: disconnect_def Let_def distinct_delete split: option.splits)
qed

lemma run_eval [simp]:
  "run cfg e (ev # evs) st = run cfg e evs (handle cfg e (fst ev) (snd ev) st)"
  by (cases ev) simp

lemma device_register_deliveries:
  "deliveries_since st (device_register e s d info A st) =
     map (\<lambda>m. (fst m, DeviceConnect d info))
       (filter (\<lambda>m. snd m = adminRoom A \<and> fst m \<noteq> s) (io_rooms st))
     @ [(s, DeviceRegistered True d)]"
  by (simp add: deliveries_since_def device_register_def Let_def socket_to_emit_def
      socket_emit_def)

lemma in_rooms_of: "r \<in> set (rooms_of st c) \<longleftrightarrow> (c, r) \<in> set (io_rooms st)"
  by (force simp: rooms_of_def)

lemmas relay_defs = initial_relay_def connection_def admin_join_def device_register_def
  socket_join_def socket_emit_def socket_to_emit_def adminRoom_def disconnect_def
  deliveries_since_def device_connect_recipients_def device_disconnect_recipients_def
  rooms_of_def device_ids_of_def admin_ids_of_def example_env_def example_config_def
  devices_def

lemmas token_defs = generateAdminToken_def generateDeviceToken_def verifyToken_def
  generateToken_def jwt_sign_def jwt_verify_def JWT_EXPIRES_IN_def

section \<open>The session relay: scoping of broadcasts\<close>

text \<open>
  Claim C2: when a device is registered for admin \<open>A\<close>, the \<open>device:connect\<close> event goes
  to the sockets that are in the room of \<open>A\<close> (the registering socket apart) and to
  no other socket; in particular a socket whose only room is that of another admin
  \<open>B\<close> does not receive it.
\<close>

theorem device_connect_scoped:
  assumes "A \<noteq> B" and "set (rooms_of st c) \<subseteq> {adminRoom B}"
  shows "set (device_connect_recipients
              (deliveries_since st (device_register e s d info A st)))
           = {c'. adminRoom A \<in> set (rooms_of st c') \<and> c' \<noteq> s}
         \<and> c \<notin> set (device_connect_recipients
                     (deliveries_since st (device_register e s d info A st)))"
proof -
  have recv: "set (device_connect_recipients
                    (deliveries_since st (device_register e s d info A st)))
           = {c'. adminRoom A \<in> set (rooms_of st c') \<and> c' \<noteq> s}"
    by (force simp: device_register_deliveries device_connect_recipients_def in_rooms_of
        filter_map o_def)
  have "adminRoom A \<noteq> adminRoom B"
    using assms(1) by (simp add: adminRoom_eq_iff)
  with assms(2) have "adminRoom A \<notin> set (rooms_of st c)"
    by auto
  with recv show ?thesis
    by simp
qed

theorem device_connect_scoped_witness:
  "''admin-A'' \<noteq> ''admin-B''
   \<and> set (rooms_of two_admins_state ''sock-b'') \<subseteq> {adminRoom ''admin-B''}
   \<and> device_connect_recipients (deliveries_since two_admins_state
        (device_register example_env ''dev-a'' ''device-001'' [] ''admin-A'' two_admins_state))
      = [''sock-a'']
   \<and> ''sock-b'' \<notin> set (device_connect_recipients (deliveries_since two_admins_state
        (device_register example_env ''dev-a'' ''device-001'' [] ''admin-A'' two_admins_state)))"
  using device_connect_scoped [of "''admin-A''" "''admin-B''" two_admins_state "''sock-b''"
      example_env "''dev-a''" "''device-001''" "[]"]
  by (simp add: two_admins_state_def relay_defs Let_def)

section \<open>The session relay: disconnect\<close>

text \<open>
  Claim C5 at a device connection without an admin session. An admin socket is in the
  room of \<open>admin-001\<close> and was told of the registration of \<open>device-001\<close> by the socket
  \<open>dev-1\<close>. When \<open>dev-1\<close> closes, its registration is removed and the device's connected
  flag goes back to false, but no event is delivered to anyone: the admin in the
  room is not sent \<open>device:disconnect\<close>.
\<close>

theorem device_disconnect_not_broadcast:
  "device_connect_recipients (emitted one_device_state) = [''sock-a'']
   \<and> rooms_of one_device_state ''sock-a'' = [adminRoom ''admin-001'']
   \<and> device_ids_of one_device_state ''dev-1'' = [''device-001'']
   \<and> admin_ids_of one_device_state ''dev-1'' = []
   \<and> map md_connected (sim_devices one_device_state) = [True, False, False]
   \<and> device_ids_of
        (disconnect example_env ''dev-1'' ''transport close'' one_device_state) ''dev-1'' = []
   \<and> map md_connected
        (sim_devices (disconnect example_env ''dev-1'' ''transport close'' one_device_state))
      = [False, False, False]
   \<and> deliveries_since one_device_state
        (disconnect example_env ''dev-1'' ''transport close'' one_device_state) = []"
  by (simp add: one_device_state_def relay_defs Let_def)

section \<open>The session relay: bindings of a connection\<close>

text \<open>
  Claim C6, as stated, fails. In a state where the socket \<open>dev-1\<close> holds no admin
  session and one registration, a second \<open>device:register\<close> on the same socket binds
  it to two device ids, and an \<open>admin:authenticate\<close> with an admin token binds it to an
  admin id while it keeps its device.
\<close>

theorem binding_invariant_counterexample:
  "adminSessions one_device_state = []
   \<and> map (\<lambda>r. (fst r, de_socketId (snd r))) (connectedDevices one_device_state)
       = [(''device-001'', ''dev-1'')]
   \<and> device_ids_of (handle example_config example_env ''dev-1''
        (DeviceRegister ''device-002'' [] ''admin-001'') one_device_state) ''dev-1''
       = [''device-001'', ''device-002'']
   \<and> admin_ids_of (handle example_config example_env ''dev-1''
        (AdminAuthenticate (generateAdminToken example_config (e_nowMs example_env) ''admin-001''))
        one_device_state) ''dev-1'' = [''admin-001'']
   \<and> device_ids_of (handle example_config example_env ''dev-1''
        (AdminAuthenticate (generateAdminToken example_config (e_nowMs example_env) ''admin-001''))
        one_device_state) ''dev-1'' = [''device-001'']"
  by (simp add: one_device_state_def relay_defs Let_def admin_authenticate_def token_defs
      logActivity_def)

text \<open>
  Claim C6, amended: every relay operation (connection, authenticate, join, register,
  the request handlers, disconnect) preserves that each connection is bound to at
  most one admin id.
\<close>

theorem one_admin_id_preserved:
  assumes "\<forall>c. length (admin_ids_of st c) \<le> 1"
  shows "\<forall>c. length (admin_ids_of (handle cfg e s req st) c) \<le> 1"
proof -
  from assms have "\<forall>c. length (filter (\<lambda>b. fst b = c) (adminSessions st)) \<le> 1"
    unfolding admin_ids_of_def length_map .
  then have "distinct (map fst (adminSessions st))"
    by (rule iffD1 [OF at_most_one_iff_distinct])
  then have "distinct (map fst (adminSessions (handle cfg e s req st)))"
    by (rule handle_adminSessions_distinct)
  then have "\<forall>c. length (filter (\<lambda>b. fst b = c) (adminSessions (handle cfg e s req st))) \<le> 1"
    by (rule iffD2 [OF at_most_one_iff_distinct])
  then show ?thesis
    unfolding admin_ids_of_def length_map .
qed

theorem one_admin_id_preserved_witness:
  "admin_ids_of authenticated_state ''sock-a'' = [''admin-001'']
   \<and> (\<forall>c. length (admin_ids_of authenticated_state c) \<le> 1)
   \<and> admin_ids_of (handle example_config example_env ''sock-a''
        (AdminAuthenticate (generateAdminToken example_config (e_nowMs example_env) ''admin-002''))
        authenticated_state) ''sock-a'' = [''admin-002'']
   \<and> (\<forall>c. length (admin_ids_of (handle example_config example_env ''sock-a''
        (AdminAuthenticate (generateAdminToken example_config (e_nowMs example_env) ''admin-002''))
        authenticated_state) c) \<le> 1)"
proof -
  have s: "adminSessions authenticated_state = [(''sock-a'', ''admin-001'')]"
    by (simp add: authenticated_state_def one_device_state_def relay_defs Let_def
        admin_authenticate_def token_defs logActivity_def)
  then have h: "\<forall>c. length (admin_ids_of authenticated_state c) \<le> 1"
    by (simp add: admin_ids_of_def)
  have a: "admin_ids_of (handle example_config example_env ''sock-a''
        (AdminAuthenticate (generateAdminToken example_config (e_nowMs example_env) ''admin-002''))
        authenticated_state) ''sock-a'' = [''admin-002'']"
    by (simp add: s admin_ids_of_def admin_authenticate_def token_defs example_env_def
        example_config_def Let_def socket_emit_def)
  show ?thesis
    using one_admin_id_preserved [OF h, of example_config example_env "''sock-a''"
        "AdminAuthenticate (generateAdminToken example_config (e_nowMs example_env) ''admin-002'')"]
      s h a
    by (simp add: admin_ids_of_def)
qed

section \<open>The session relay: registrations\<close>

text \<open>
  Claim C7, as stated, fails. The socket \<open>dev-1\<close> is connected and holds the registration
  of \<open>device-001\<close>. A \<open>device:register\<close> for the same device on the socket \<open>dev-2\<close> is
  accepted (\<open>dev-2\<close> is sent \<open>device:registered\<close> with success true) while \<open>dev-1\<close> is
  still connected, and the registration now names \<open>dev-2\<close>.
\<close>

theorem second_registration_accepted:
  "device_ids_of one_device_state ''dev-1'' = [''device-001'']
   \<and> ''dev-1'' \<in> set (sockets one_device_state)
   \<and> deliveries_since one_device_state
        (handle example_config example_env ''dev-2''
           (DeviceRegister ''device-001'' [] ''admin-001'') one_device_state)
      = [(''sock-a'', DeviceConnect ''device-001'' []),
         (''dev-2'', DeviceRegistered True ''device-001'')]
   \<and> ''dev-1'' \<in> set (sockets (handle example_config example_env ''dev-2''
           (DeviceRegister ''device-001'' [] ''admin-001'') one_device_state))
   \<and> device_ids_of (handle example_config example_env ''dev-2''
           (DeviceRegister ''device-001'' [] ''admin-001'') one_device_state) ''dev-2''
      = [''device-001'']
   \<and> device_ids_of (handle example_config example_env ''dev-2''
           (DeviceRegister ''device-001'' [] ''admin-001'') one_device_state) ''dev-1'' = []"
  by (simp add: one_device_state_def relay_defs Let_def)

text \<open>
  Claim C7, amended: a \<open>device:register\<close> request for a device id is always accepted,
  whether or not the id has a registration on an open connection: the requester is
  sent \<open>device:registered\<close> with success true, and the id's registration is the new
  one, bound to the requesting connection, in place of any earlier one, so that a
  device id never has two registrations. A registration is otherwise removed by the
  disconnect handler of its connection: when the record store accepts the handler's
  write, no registration bound to the closed connection is left.
\<close>

theorem device_register_last_writer_wins:
  "last (emitted (device_register e s d info a st)) = (s, DeviceRegistered True d)
   \<and> map_of (connectedDevices (device_register e s d info a st)) d
       = Some \<lparr>de_info = info, de_socketId = s, de_connectedAt = e_iso e\<rparr>
   \<and> (distinct (map fst (connectedDevices st)) \<longrightarrow>
        distinct (map fst (connectedDevices (device_register e s d info a st))))
   \<and> (\<not> e_storeFails e \<longrightarrow> device_ids_of (disconnect e c reason st) c = [])"
  by (simp add: device_register_def Let_def update_conv' distinct_update
      device_ids_of_disconnect)

theorem device_register_last_writer_wins_witness:
  "last (emitted (device_register example_env ''dev-2'' ''device-001'' [] ''admin-001''
        one_device_state)) = (''dev-2'', DeviceRegistered True ''device-001'')
   \<and> map_of (connectedDevices (device_register example_env ''dev-2'' ''device-001'' []
        ''admin-001'' one_device_state)) ''device-001''
       = Some \<lparr>de_info = [], de_socketId = ''dev-2'', de_connectedAt = e_iso example_env\<rparr>
   \<and> distinct (map fst (connectedDevices one_device_state))
   \<and> distinct (map fst (connectedDevices (device_register example_env ''dev-2'' ''device-001''
        [] ''admin-001'' one_device_state)))
   \<and> \<not> e_storeFails example_env
   \<and> device_ids_of (disconnect example_env ''dev-1'' ''transport close'' one_device_state)
        ''dev-1'' = []"
proof -
  have d: "distinct (map fst (connectedDevices one_device_state))"
    by (simp add: one_device_state_def relay_defs Let_def)
  have f: "\<not> e_storeFails example_env"
    by (simp add: example_env_def)
  show ?thesis
    using device_register_last_writer_wins [of example_env "''dev-2''" "''device-001''" "[]"
        "''admin-001''" one_device_state "''dev-1''" "''transport close''"] d f
    by simp
qed

section \<open>The session relay: admin authentication\<close>

text \<open>
  Claim C10: for a token that verifies (validly signed, not expired) and whose type is
  \<open>device\<close>, the \<open>admin:authenticate\<close> handler sends the requesting connection
  \<open>admin:authenticated\<close> with success false and nothing else, and leaves \<open>adminSessions\<close>
  as it was.
\<close>

theorem device_token_not_admin:
  assumes "verifyToken cfg (e_nowMs e) tok = Some p" and "jp_type p = Device"
  shows "adminSessions (admin_authenticate cfg e s tok st) = adminSessions st
    \<and> deliveries_since st (admin_authenticate cfg e s tok st)
        = [(s, AdminAuthenticated False None (Some ''Invalid token''))]"
  using assms by (simp add: admin_authenticate_def deliveries_since_def)

theorem device_token_not_admin_witness:
  "verifyToken example_config (e_nowMs example_env)
      (generateDeviceToken example_config (e_nowMs example_env) ''admin-001'' ''device-001'')
     = Some \<lparr>jp_userId = ''admin-001'', jp_deviceId = Some ''device-001'', jp_type = Device,
             jp_iat = Some 1706781600, jp_exp = Some 1706868000\<rparr>
   \<and> adminSessions (admin_authenticate example_config example_env ''sock-x''
        (generateDeviceToken example_config (e_nowMs example_env) ''admin-001'' ''device-001'')
        one_device_state) = []
   \<and> deliveries_since one_device_state (admin_authenticate example_config example_env ''sock-x''
        (generateDeviceToken example_config (e_nowMs example_env) ''admin-001'' ''device-001'')
        one_device_state)
      = [(''sock-x'', AdminAuthenticated False None (Some ''Invalid token''))]"
proof -
  have v: "verifyToken example_config (e_nowMs example_env)
      (generateDeviceToken example_config (e_nowMs example_env) ''admin-001'' ''device-001'')
     = Some \<lparr>jp_userId = ''admin-001'', jp_deviceId = Some ''device-001'', jp_type = Device,
             jp_iat = Some 1706781600, jp_exp = Some 1706868000\<rparr>"
    by (simp add: token_defs Let_def example_env_def)
  have a: "adminSessions one_device_state = []"
    by (simp add: one_device_state_def relay_defs Let_def)
  show ?thesis
    using device_token_not_admin [OF v, of "''sock-x''" one_device_state] v a
    by simp
qed

end
